theory Spec2Isabelle
  imports Complex_Main "HOL-Library.Word" "HOL-Library.Sublist"
begin

section \<open>The task list of \<open>todo-app.tsx\<close>\<close>

text \<open>
  The component \<open>TodoApp\<close> keeps a list of tasks in React state, changes it through the
  handlers \<open>addTask\<close>, \<open>updateTaskPriority\<close>, \<open>toggleTask\<close> and \<open>deleteTask\<close>, shows the
  derived list \<open>filteredTasks\<close>, and mirrors the list to \<open>localStorage\<close> under the key
  \<open>"todos"\<close> in two effects. Each handler is embedded as a function from the state it
  reads to the value its call returns and the state it leaves.
\<close>

subsection \<open>Strings\<close>

text \<open>
  A JavaScript string is a sequence of UTF-16 code units. \<open>utf16\<close> writes an ASCII
  literal of the source as such a sequence.
\<close>

type_synonym code_unit = "16 word"
type_synonym js_string = "code_unit list"

definition utf16 :: "string \<Rightarrow> js_string" where
  "utf16 s = map (\<lambda>c. of_char c) s"

text \<open>
  \<open>String.prototype.trim\<close> strips, at both ends, the code units that ECMAScript calls
  WhiteSpace (TAB, VT, FF, ZWNBSP and the Unicode space separators) or LineTerminator
  (LF, CR, LS, PS).
\<close>

definition white_space :: "code_unit \<Rightarrow> bool" where
  "white_space c \<longleftrightarrow>
     c \<in> {0x0009, 0x000A, 0x000B, 0x000C, 0x000D, 0x0020, 0x00A0, 0x1680,
          0x2028, 0x2029, 0x202F, 0x205F, 0x3000, 0xFEFF}
     \<or> (0x2000 \<le> c \<and> c \<le> 0x200A)"

definition trim :: "js_string \<Rightarrow> js_string" where
  "trim s = rev (dropWhile white_space (rev (dropWhile white_space s)))"

subsection \<open>Data\<close>

text \<open>
  \<open>type Priority = 'P1' | 'P2' | 'P3'\<close> and
  \<open>type Task = { id: string, text: string, completed: boolean, priority?: Priority }\<close>.
  The fields \<open>id\<close> and \<open>text\<close> are written \<open>task_id\<close> and \<open>task_text\<close>.
\<close>

datatype priority = P1 | P2 | P3

record task =
  task_id :: js_string
  task_text :: js_string
  completed :: bool
  priority :: "priority option"

text \<open>
  The React state the handlers read and write: \<open>tasks\<close>, the input field \<open>newTask\<close>,
  \<open>selectedPriority\<close> and \<open>activeTab\<close>. The audio state (\<open>audioEnabled\<close> and the two
  audio refs) is left out: \<open>initializeAudio\<close>, \<open>playCompleteSound\<close> and
  \<open>playDeleteSound\<close> catch every error they meet and touch nothing but that state.
\<close>

record app =
  tasks :: "task list"
  newTask :: js_string
  selectedPriority :: "priority option"
  activeTab :: js_string

text \<open>
  What a call hands back to its caller. The handlers are arrow functions whose only
  \<open>return\<close> statement carries no value, so each call evaluates to \<open>undefined\<close>.
\<close>

datatype 'a js_return = Undefined | Value 'a

subsection \<open>Handlers\<close>


definition updateTaskPriority ::
  "js_string \<Rightarrow> priority option \<Rightarrow> app \<Rightarrow> task js_return \<times> app" where
  "updateTaskPriority i p s =
     (Undefined,
      s\<lparr>tasks := map (\<lambda>task. if task_id task = i then task\<lparr>priority := p\<rparr> else task)
                     (tasks s)\<rparr>)"

definition toggleTask :: "js_string \<Rightarrow> app \<Rightarrow> task js_return \<times> app" where
  "toggleTask i s =
     (Undefined,
      s\<lparr>tasks := map (\<lambda>task. if task_id task = i
                             then task\<lparr>completed := \<not> completed task\<rparr> else task)
                     (tasks s)\<rparr>)"

definition deleteTask :: "js_string \<Rightarrow> app \<Rightarrow> bool js_return \<times> app" where
  "deleteTask i s =
     (Undefined, s\<lparr>tasks := filter (\<lambda>task. task_id task \<noteq> i) (tasks s)\<rparr>)"

text \<open>
  \<open>filteredTasks\<close> is recomputed at every render from \<open>activeTab\<close> and \<open>tasks\<close>.
\<close>

definition filteredTasks :: "js_string \<Rightarrow> task list \<Rightarrow> task list" where
  "filteredTasks tab ts =
     filter (\<lambda>task. if tab = utf16 ''active'' then \<not> completed task
                    else if tab = utf16 ''completed'' then completed task
                    else True) ts"

text \<open>The ids of a list of tasks, in order and as a set.\<close>

definition ids :: "task list \<Rightarrow> js_string list" where
  "ids ts = map task_id ts"

definition id_set :: "task list \<Rightarrow> js_string set" where
  "id_set ts = set (map task_id ts)"

subsection \<open>Persistence\<close>

text \<open>
  The two effects talk to \<open>localStorage\<close> through \<open>getItem\<close>, \<open>setItem\<close>,
  \<open>JSON.parse\<close> and \<open>JSON.stringify\<close>, which belong to the platform. A JSON text is
  represented by the value \<open>JSON.parse\<close> reads from it; an object keeps its members in
  the order of the text, and a later member overrides an earlier one with the same key,
  as \<open>JSON.parse\<close> has it.
\<close>

datatype json =
    JNull
  | JBool bool
  | JNum rat
  | JStr js_string
  | JArr "json list"
  | JObj "(js_string \<times> json) list"

text \<open>
  What \<open>localStorage.getItem("todos")\<close> returns: \<open>null\<close>, the empty string, a
  non-empty string that \<open>JSON.parse\<close> rejects, or a string that it parses.
\<close>

datatype item = NoItem | EmptyText | BadText | JsonText json

text \<open>
  The storage: whether the probe of \<open>isLocalStorageAvailable\<close> goes through
  (\<open>usable\<close>), whether \<open>setItem("todos", \<dots>)\<close> has room to succeed (\<open>has_quota\<close>), and
  the item stored under \<open>"todos"\<close>.
\<close>

record storage =
  usable :: bool
  has_quota :: bool
  todos :: item

datatype js_error = SyntaxError | TypeError | QuotaExceededError

text \<open>
  A console is the list of the messages given to \<open>console.error\<close>, oldest first; the
  calls of \<open>console.log\<close> are not recorded.
\<close>

type_synonym console = "string list"

definition isLocalStorageAvailable :: "storage \<Rightarrow> bool \<times> console" where
  "isLocalStorageAvailable st =
     (if usable st then (True, []) else (False, [''localStorage is not available:'']))"

text \<open>The test \<open>if (savedTasks)\<close>: \<open>null\<close> and the empty string are falsy.\<close>

fun truthy :: "item \<Rightarrow> bool" where
  "truthy NoItem = False"
| "truthy EmptyText = False"
| "truthy BadText = True"
| "truthy (JsonText v) = True"

text \<open>\<open>JSON.parse\<close> turns its argument into a string first, so \<open>null\<close> reads as the text \<open>null\<close>.\<close>

fun JSON_parse :: "item \<Rightarrow> js_error + json" where
  "JSON_parse NoItem = Inr JNull"
| "JSON_parse EmptyText = Inl SyntaxError"
| "JSON_parse BadText = Inl SyntaxError"
| "JSON_parse (JsonText v) = Inr v"

text \<open>
  Reading a property of a parsed value: \<open>None\<close> is \<open>undefined\<close>.
\<close>

fun get_prop :: "js_string \<Rightarrow> json \<Rightarrow> json option" where
  "get_prop k (JObj kvs) = map_of (rev kvs) k"
| "get_prop k v = None"

text \<open>
  The test \<open>parsedExistingTasks.length > 0\<close> of the save effect. Reading \<open>length\<close> of
  \<open>null\<close> throws a TypeError; an array and a string have their length; a number and a
  boolean have no such property, and \<open>undefined > 0\<close> is false; an object has it when a
  member is called \<open>length\<close>. In that last case \<open>gt0 v\<close> stands for JavaScript's
  \<open>v > 0\<close>, which converts \<open>v\<close> to a number first and throws a TypeError when \<open>v\<close> is
  an object that has no primitive value (its members \<open>valueOf\<close> and \<open>toString\<close> hide
  the inherited functions).
\<close>

fun length_positive :: "(json \<Rightarrow> js_error + bool) \<Rightarrow> json \<Rightarrow> js_error + bool" where
  "length_positive gt0 JNull = Inl TypeError"
| "length_positive gt0 (JArr es) = Inr (es \<noteq> [])"
| "length_positive gt0 (JStr str) = Inr (str \<noteq> [])"
| "length_positive gt0 (JObj kvs) =
     (case get_prop (utf16 ''length'') (JObj kvs) of None \<Rightarrow> Inr False | Some v \<Rightarrow> gt0 v)"
| "length_positive gt0 (JBool b) = Inr False"
| "length_positive gt0 (JNum n) = Inr False"

text \<open>
  \<open>JSON.stringify(tasks)\<close>: each task becomes an object with its members in the
  order of the object literal of \<open>addTask\<close>; a \<open>priority\<close> that is \<open>undefined\<close> is
  left out.
\<close>

fun priority_str :: "priority \<Rightarrow> js_string" where
  "priority_str P1 = utf16 ''P1''"
| "priority_str P2 = utf16 ''P2''"
| "priority_str P3 = utf16 ''P3''"

definition task_json :: "task \<Rightarrow> json" where
  "task_json t =
     JObj ([(utf16 ''id'', JStr (task_id t)), (utf16 ''text'', JStr (task_text t)),
            (utf16 ''completed'', JBool (completed t))]
           @ (case priority t of None \<Rightarrow> []
              | Some p \<Rightarrow> [(utf16 ''priority'', JStr (priority_str p))]))"

definition serialize :: "task list \<Rightarrow> json" where
  "serialize ts = JArr (map task_json ts)"

definition setItem :: "storage \<Rightarrow> json \<Rightarrow> js_error + storage" where
  "setItem st v =
     (if has_quota st then Inr (st\<lparr>todos := JsonText v\<rparr>) else Inl QuotaExceededError)"

text \<open>
  The effect that loads the tasks when the component mounts. Its result is the value given
  to \<open>setTasks\<close>, if the effect calls it, and what it wrote to the console. The
  \<open>try\<close> block encloses \<open>JSON.parse\<close>.
\<close>

definition load_effect :: "storage \<Rightarrow> js_error + json option \<times> console" where
  "load_effect st =
     (case isLocalStorageAvailable st of
        (False, out) \<Rightarrow>
          Inr (None, out @ [''localStorage is not available, tasks will not persist''])
      | (True, out) \<Rightarrow>
          if truthy (todos st) then
            (case JSON_parse (todos st) of
               Inr parsedTasks \<Rightarrow> Inr (Some parsedTasks, out)
             | Inl error \<Rightarrow> Inr (None, out @ [''Error loading tasks from localStorage:'']))
          else Inr (None, out))"

text \<open>
  The effect that saves the tasks whenever they change, in three steps as the source has
  them: the availability test, the guard for an empty list, which stands before the
  \<open>try\<close> block, and the write inside it. \<open>Inl\<close> is an exception that leaves the
  effect; in \<open>skip_save\<close>, \<open>Inr True\<close> is the \<open>return\<close> of the guard.
\<close>

definition skip_save ::
  "(json \<Rightarrow> js_error + bool) \<Rightarrow> task list \<Rightarrow> storage \<Rightarrow> js_error + bool" where
  "skip_save gt0 ts st =
     (if ts = [] then
        (if truthy (todos st) then
           (case JSON_parse (todos st) of
              Inl error \<Rightarrow> Inl error
            | Inr parsedExistingTasks \<Rightarrow> length_positive gt0 parsedExistingTasks)
         else Inr False)
      else Inr False)"

definition write_tasks :: "task list \<Rightarrow> storage \<Rightarrow> storage \<times> console" where
  "write_tasks ts st =
     (case setItem st (serialize ts) of
        Inr st' \<Rightarrow> (st', [])
      | Inl error \<Rightarrow> (st, [''Error saving tasks to localStorage:'']))"

definition save_effect ::
  "(json \<Rightarrow> js_error + bool) \<Rightarrow> task list \<Rightarrow> storage \<Rightarrow> js_error + storage \<times> console"
  where
  "save_effect gt0 ts st =
     (case isLocalStorageAvailable st of
        (False, out) \<Rightarrow> Inr (st, out)
      | (True, out) \<Rightarrow>
          (case skip_save gt0 ts st of
             Inl error \<Rightarrow> Inl error
           | Inr True \<Rightarrow> Inr (st, out)
           | Inr False \<Rightarrow>
               (case write_tasks ts st of (st', out') \<Rightarrow> Inr (st', out @ out'))))"

text \<open>
  The entries of a parsed snapshot that have the type \<open>Task\<close>: an object whose \<open>id\<close> and
  \<open>text\<close> are strings, whose \<open>completed\<close> is a boolean and whose \<open>priority\<close> is absent
  or one of the three priorities.
\<close>

definition priority_of :: "js_string \<Rightarrow> priority option" where
  "priority_of str =
     (if str = utf16 ''P1'' then Some P1
      else if str = utf16 ''P2'' then Some P2
      else if str = utf16 ''P3'' then Some P3
      else None)"

definition as_task :: "json \<Rightarrow> task option" where
  "as_task j =
     (case (get_prop (utf16 ''id'') j, get_prop (utf16 ''text'') j, get_prop (utf16 ''completed'') j) of
        (Some (JStr i), Some (JStr t), Some (JBool c)) \<Rightarrow>
          (case get_prop (utf16 ''priority'') j of
             None \<Rightarrow> Some \<lparr>task_id = i, task_text = t, completed = c, priority = None\<rparr>
           | Some (JStr p) \<Rightarrow>
               (case priority_of p of
                  None \<Rightarrow> None
                | Some q \<Rightarrow>
                    Some \<lparr>task_id = i, task_text = t, completed = c, priority = Some q\<rparr>)
           | Some other \<Rightarrow> None)
      | other \<Rightarrow> None)"

subsection \<open>Sequences of additions and parsed snapshots\<close>




text \<open>
  The elements of the state over which the render runs \<open>tasks.filter\<close>: on a value that
  is not an array the call throws a TypeError.
\<close>

fun entries :: "json \<Rightarrow> js_error + json list" where
  "entries (JArr es) = Inr es"
| "entries v = Inl TypeError"

subsection \<open>Sample states\<close>


definition task_a :: task where
  "task_a = \<lparr>task_id = utf16 ''a'', task_text = utf16 ''A'', completed = False,
             priority = Some P1\<rparr>"

definition task_b :: task where
  "task_b = \<lparr>task_id = utf16 ''b'', task_text = utf16 ''B'', completed = True,
             priority = None\<rparr>"

definition twin_done :: task where
  "twin_done = \<lparr>task_id = utf16 ''a'', task_text = utf16 ''A2'', completed = True,
                priority = None\<rparr>"

definition two_tasks :: app where
  "two_tasks = \<lparr>tasks = [task_a, task_b], newTask = [], selectedPriority = None,
                activeTab = utf16 ''all''\<rparr>"

definition twins :: app where
  "twins = \<lparr>tasks = [task_a, twin_done], newTask = utf16 ''C'', selectedPriority = None,
            activeTab = utf16 ''all''\<rparr>"

definition no_id_entry :: json where
  "no_id_entry =
     JObj [(utf16 ''text'', JStr (utf16 ''orphan'')), (utf16 ''completed'', JBool False)]"

definition store_with :: "item \<Rightarrow> storage" where
  "store_with it = \<lparr>usable = True, has_quota = True, todos = it\<rparr>"



section \<open>Properties of the handlers\<close>

subsection \<open>Helper facts\<close>


text \<open>What is left after trimming begins and ends with a code unit that is not white space.\<close>

lemma last_dropWhile_nonempty: "dropWhile P xs \<noteq> [] \<Longrightarrow> last (dropWhile P xs) = last xs"
  by (metis last_appendR takeWhile_dropWhile_id)

lemma trim_ends:
  assumes "trim s \<noteq> []"
  shows "\<not> white_space (hd (trim s)) \<and> \<not> white_space (last (trim s))"
proof -
  let ?lead = "dropWhile white_space s"
  let ?rest = "dropWhile white_space (rev ?lead)"
  from assms have rest: "?rest \<noteq> []"
    by (simp add: trim_def)
  then have lead: "?lead \<noteq> []"
    by (auto dest: set_dropWhileD)
  have "last (trim s) = hd ?rest"
    using rest by (simp add: trim_def last_rev)
  moreover have "\<not> white_space (hd ?rest)"
    using rest by (rule hd_dropWhile)
  moreover have "hd (trim s) = last ?rest"
    using rest by (simp add: trim_def hd_rev)
  moreover have "last ?rest = hd ?lead"
    using rest lead by (simp add: last_dropWhile_nonempty last_rev)
  moreover have "\<not> white_space (hd ?lead)"
    using lead by (rule hd_dropWhile)
  ultimately show ?thesis
    by simp
qed

lemma trim_idem: "trim (trim s) = trim s"
proof (cases "trim s = []")
  case True
  have "trim [] = []"
    by (simp add: trim_def)
  then show ?thesis
    by (simp only: True)
next
  case False
  from trim_ends [OF False] have h: "\<not> white_space (hd (trim s))" and l: "\<not> white_space (last (trim s))"
    by simp_all
  from False h have "dropWhile white_space (trim s) = trim s"
    by (cases "trim s") simp_all
  moreover from False l have "dropWhile white_space (rev (trim s)) = rev (trim s)"
    by (cases "rev (trim s)") (simp_all add: last_rev [symmetric] hd_rev)
  ultimately show ?thesis
    by (simp add: trim_def [of "trim s"])
qed

lemma tab_literals:
  "utf16 ''all'' \<noteq> utf16 ''active''" "utf16 ''all'' \<noteq> utf16 ''completed''"
  "utf16 ''completed'' \<noteq> utf16 ''active''"
  by (simp_all add: utf16_def)

lemma key_literals:
  "utf16 ''id'' \<noteq> utf16 ''text''" "utf16 ''id'' \<noteq> utf16 ''completed''"
  "utf16 ''id'' \<noteq> utf16 ''priority''" "utf16 ''text'' \<noteq> utf16 ''completed''"
  "utf16 ''text'' \<noteq> utf16 ''priority''" "utf16 ''completed'' \<noteq> utf16 ''priority''"
  "utf16 ''text'' \<noteq> utf16 ''id''" "utf16 ''completed'' \<noteq> utf16 ''id''"
  "utf16 ''priority'' \<noteq> utf16 ''id''" "utf16 ''completed'' \<noteq> utf16 ''text''"
  "utf16 ''priority'' \<noteq> utf16 ''text''" "utf16 ''priority'' \<noteq> utf16 ''completed''"
  by (simp_all add: utf16_def)

subsection \<open>Adding a task\<close>




subsection \<open>Toggling a task\<close>

text \<open>
  C2, as stated, on the list of the tasks \<open>a\<close> and \<open>b\<close>: toggling \<open>a\<close> does not
  return the updated task, and toggling the unknown id \<open>zz\<close> returns the very same value,
  so nothing tells the caller that no task was found.
\<close>

theorem toggleTask_signals_nothing:
  "utf16 ''a'' \<in> id_set (tasks two_tasks) \<and> utf16 ''zz'' \<notin> id_set (tasks two_tasks) \<and>
   fst (toggleTask (utf16 ''a'') two_tasks) \<noteq> Value (task_a\<lparr>completed := True\<rparr>) \<and>
   fst (toggleTask (utf16 ''zz'') two_tasks) = fst (toggleTask (utf16 ''a'') two_tasks)"
  by (simp add: toggleTask_def two_tasks_def task_a_def task_b_def id_set_def utf16_def)

text \<open>
  C2, amended. For every list state and every id, \<open>toggleTask\<close> flips the \<open>completed\<close> flag
  of each task whose id matches and leaves every other task untouched, position by
  position; if no task has that id the state is left unchanged. The call returns
  \<open>undefined\<close> in both cases: neither the updated task nor a not-found signal reaches
  the caller.
\<close>

theorem toggleTask_effect:
  "fst (toggleTask i s) = Undefined \<and>
   length (tasks (snd (toggleTask i s))) = length (tasks s) \<and>
   (\<forall>k<length (tasks s).
      tasks (snd (toggleTask i s)) ! k =
        (if task_id (tasks s ! k) = i
         then (tasks s ! k)\<lparr>completed := \<not> completed (tasks s ! k)\<rparr>
         else tasks s ! k)) \<and>
   (i \<notin> id_set (tasks s) \<longrightarrow> snd (toggleTask i s) = s)"
proof -
  have "i \<notin> id_set (tasks s) \<Longrightarrow>
        map (\<lambda>task. if task_id task = i then task\<lparr>completed := \<not> completed task\<rparr> else task)
          (tasks s) = tasks s"
    by (intro map_idI) (auto simp: id_set_def)
  then show ?thesis
    by (simp add: toggleTask_def)
qed

text \<open>The amended C2 on the list of \<open>a\<close> and \<open>b\<close>, for the unknown id \<open>zz\<close> and for \<open>a\<close>.\<close>

theorem toggleTask_effect_witness:
  "utf16 ''zz'' \<notin> id_set (tasks two_tasks) \<and>
   snd (toggleTask (utf16 ''zz'') two_tasks) = two_tasks \<and>
   (0::nat) < length (tasks two_tasks) \<and>
   tasks (snd (toggleTask (utf16 ''a'') two_tasks)) ! 0 = task_a\<lparr>completed := True\<rparr>"
  using toggleTask_effect [of "utf16 ''zz''" two_tasks]
    toggleTask_effect [of "utf16 ''a''" two_tasks]
  by (simp add: two_tasks_def task_a_def task_b_def id_set_def utf16_def)

text \<open>
  C10. For every list state and every id, \<open>toggleTask\<close> changes nothing but the
  \<open>completed\<close> field of the matching task: the ids, the texts and the priorities of the
  list are the same, in the same order, the length is the same, and \<open>completed\<close> is
  negated exactly where the id matches.
\<close>

theorem toggleTask_frame:
  "length (tasks (snd (toggleTask i s))) = length (tasks s) \<and>
   ids (tasks (snd (toggleTask i s))) = ids (tasks s) \<and>
   map task_text (tasks (snd (toggleTask i s))) = map task_text (tasks s) \<and>
   map priority (tasks (snd (toggleTask i s))) = map priority (tasks s) \<and>
   (\<forall>k<length (tasks s).
      completed (tasks (snd (toggleTask i s)) ! k) =
        (if task_id (tasks s ! k) = i then \<not> completed (tasks s ! k)
         else completed (tasks s ! k)))"
  by (simp add: toggleTask_def ids_def)

text \<open>C10 on the list of \<open>a\<close> and \<open>b\<close>, toggling the completed task \<open>b\<close>.\<close>

theorem toggleTask_frame_witness:
  "(1::nat) < length (tasks two_tasks) \<and>
   completed (tasks (snd (toggleTask (utf16 ''b'') two_tasks)) ! 1) = False \<and>
   ids (tasks (snd (toggleTask (utf16 ''b'') two_tasks))) = [utf16 ''a'', utf16 ''b'']"
  using toggleTask_frame [of "utf16 ''b''" two_tasks]
  by (simp add: two_tasks_def task_a_def task_b_def ids_def utf16_def)

text \<open>Toggling the same id twice gives the state back.\<close>

lemma toggleTask_twice: "snd (toggleTask i (snd (toggleTask i s))) = s"
  by (simp add: toggleTask_def comp_def) (simp add: map_idI)

subsection \<open>Deleting a task\<close>

text \<open>
  C4, as stated, on the list of \<open>a\<close> and \<open>b\<close>: deleting \<open>a\<close> removes a task, yet the
  call does not return \<open>true\<close>.
\<close>

theorem deleteTask_returns_no_boolean:
  "utf16 ''a'' \<in> id_set (tasks two_tasks) \<and>
   tasks (snd (deleteTask (utf16 ''a'') two_tasks)) \<noteq> tasks two_tasks \<and>
   fst (deleteTask (utf16 ''a'') two_tasks) \<noteq> Value True"
  by (simp add: deleteTask_def two_tasks_def task_a_def task_b_def id_set_def utf16_def)

text \<open>
  C4, amended. For every list state and every id, \<open>deleteTask\<close> keeps, in order, exactly
  the tasks whose id differs; afterwards the view \<open>"all"\<close> holds no task with that id, and
  if no task had the id the state is unchanged. The call returns \<open>undefined\<close>: no
  boolean tells the caller whether a task was removed.
\<close>

theorem deleteTask_effect:
  "fst (deleteTask i s) = Undefined \<and>
   tasks (snd (deleteTask i s)) = filter (\<lambda>task. task_id task \<noteq> i) (tasks s) \<and>
   i \<notin> id_set (filteredTasks (utf16 ''all'') (tasks (snd (deleteTask i s)))) \<and>
   (i \<notin> id_set (tasks s) \<longrightarrow> snd (deleteTask i s) = s)"
proof -
  have "i \<notin> id_set (tasks s) \<Longrightarrow> filter (\<lambda>task. task_id task \<noteq> i) (tasks s) = tasks s"
    by (auto simp: id_set_def filter_id_conv)
  then show ?thesis
    by (auto simp: deleteTask_def filteredTasks_def id_set_def tab_literals)
qed

text \<open>The amended C4 on the list of \<open>a\<close> and \<open>b\<close>, for the unknown id \<open>zz\<close> and for \<open>a\<close>.\<close>

theorem deleteTask_effect_witness:
  "utf16 ''zz'' \<notin> id_set (tasks two_tasks) \<and>
   snd (deleteTask (utf16 ''zz'') two_tasks) = two_tasks \<and>
   tasks (snd (deleteTask (utf16 ''a'') two_tasks)) = [task_b]"
  using deleteTask_effect [of "utf16 ''zz''" two_tasks]
    deleteTask_effect [of "utf16 ''a''" two_tasks]
  by (simp add: two_tasks_def task_a_def task_b_def id_set_def utf16_def)

subsection \<open>The filtered view\<close>

text \<open>
  C3, as stated, on a list in which an open and a completed task carry the same id
  \<open>a\<close>: that id is in the id-set of the active view and in that of the completed view.
\<close>

theorem filteredTasks_shared_id:
  "utf16 ''a'' \<in> id_set (filteredTasks (utf16 ''active'') (tasks twins))
              \<inter> id_set (filteredTasks (utf16 ''completed'') (tasks twins))"
  by (simp add: filteredTasks_def twins_def task_a_def twin_done_def id_set_def utf16_def)

text \<open>
  C3, amended. For every list state, \<open>filteredTasks\<close> is an order-preserving function of
  the tab and the list alone: \<open>"active"\<close> gives exactly the tasks that are not completed,
  \<open>"completed"\<close> exactly the completed ones, \<open>"all"\<close> the whole list. The id-sets of the
  active and the completed view together are the id-set of the view \<open>"all"\<close>; the two views
  share no task; and their id-sets are disjoint whenever the ids of the list are
  pairwise distinct.
\<close>

theorem filteredTasks_views:
  "filteredTasks (utf16 ''all'') ts = ts \<and>
   filteredTasks (utf16 ''active'') ts = filter (\<lambda>task. \<not> completed task) ts \<and>
   filteredTasks (utf16 ''completed'') ts = filter completed ts \<and>
   subseq (filteredTasks tab ts) ts \<and>
   id_set (filteredTasks (utf16 ''active'') ts) \<union> id_set (filteredTasks (utf16 ''completed'') ts)
     = id_set (filteredTasks (utf16 ''all'') ts) \<and>
   set (filteredTasks (utf16 ''active'') ts) \<inter> set (filteredTasks (utf16 ''completed'') ts) = {} \<and>
   (distinct (ids ts) \<longrightarrow>
      id_set (filteredTasks (utf16 ''active'') ts)
        \<inter> id_set (filteredTasks (utf16 ''completed'') ts) = {})"
proof -
  have all: "filteredTasks (utf16 ''all'') ts = ts"
    by (simp add: filteredTasks_def tab_literals)
  have act: "filteredTasks (utf16 ''active'') ts = filter (\<lambda>task. \<not> completed task) ts"
    by (simp add: filteredTasks_def)
  have com: "filteredTasks (utf16 ''completed'') ts = filter completed ts"
    by (simp add: filteredTasks_def tab_literals)
  have sub: "subseq (filteredTasks tab ts) ts"
    by (simp add: filteredTasks_def)
  have un: "id_set (filter (\<lambda>task. \<not> completed task) ts) \<union> id_set (filter completed ts)
      = id_set ts"
    by (auto simp: id_set_def)
  have dj: "set (filter (\<lambda>task. \<not> completed task) ts) \<inter> set (filter completed ts) = {}"
    by auto
  have di: "id_set (filter (\<lambda>task. \<not> completed task) ts) \<inter> id_set (filter completed ts) = {}"
    if "distinct (ids ts)"
  proof -
    from that have "inj_on task_id (set ts)"
      by (simp add: ids_def distinct_map)
    then show ?thesis
      by (auto simp: id_set_def dest: inj_onD)
  qed
  show ?thesis
    using all act com sub un dj di by simp
qed

text \<open>The amended C3 on the list of the open task \<open>a\<close> and the completed task \<open>b\<close>.\<close>

theorem filteredTasks_views_witness:
  "distinct (ids [task_a, task_b]) \<and>
   filteredTasks (utf16 ''active'') [task_a, task_b] = [task_a] \<and>
   filteredTasks (utf16 ''completed'') [task_a, task_b] = [task_b] \<and>
   id_set (filteredTasks (utf16 ''active'') [task_a, task_b])
     \<inter> id_set (filteredTasks (utf16 ''completed'') [task_a, task_b]) = {}"
  using filteredTasks_views [of "[task_a, task_b]" "utf16 ''all''"]
  by (simp add: task_a_def task_b_def ids_def id_set_def utf16_def)

subsection \<open>Ids along a sequence of additions\<close>





text \<open>
  The other handlers keep the ids of a list pairwise distinct: toggling and setting a
  priority leave the ids as they are, deleting removes some.
\<close>

lemma handlers_keep_distinct_ids:
  assumes "distinct (ids (tasks s))"
  shows "distinct (ids (tasks (snd (toggleTask i s))))"
    and "distinct (ids (tasks (snd (updateTaskPriority i p s))))"
    and "distinct (ids (tasks (snd (deleteTask i s))))"
proof -
  have "ids (tasks (snd (toggleTask i s))) = ids (tasks s)"
    by (simp add: toggleTask_def ids_def)
  with assms show "distinct (ids (tasks (snd (toggleTask i s))))"
    by simp
  have "ids (tasks (snd (updateTaskPriority i p s))) = ids (tasks s)"
    by (simp add: updateTaskPriority_def ids_def)
  with assms show "distinct (ids (tasks (snd (updateTaskPriority i p s))))"
    by simp
  from assms show "distinct (ids (tasks (snd (deleteTask i s))))"
    by (simp add: deleteTask_def ids_def distinct_map_filter)
qed




section \<open>Properties of the persistence effects\<close>

subsection \<open>Serialising and loading\<close>

lemma priority_of_str: "priority_of (priority_str p) = Some p"
  by (cases p) (simp_all add: priority_of_def utf16_def)

lemma as_task_task_json: "as_task (task_json t) = Some t"
proof (cases "priority t")
  case None
  then show ?thesis
    by (simp add: as_task_def task_json_def key_literals)
next
  case (Some p)
  then show ?thesis
    by (simp add: as_task_def task_json_def key_literals priority_of_str)
qed

lemma entries_serialize:
  "\<exists>es. entries (serialize ts) = Inr es \<and> length es = length ts \<and> map as_task es = map Some ts"
  by (simp add: serialize_def as_task_task_json)

text \<open>
  C5. For every list of tasks, loading the snapshot that \<open>JSON.stringify(tasks)\<close> wrote
  installs a list of the same length whose entries read back, one by one, as the
  original tasks with their id, text, completed flag and priority.
\<close>

theorem load_serialize_roundtrip:
  "usable st \<Longrightarrow>
   load_effect (st\<lparr>todos := JsonText (serialize ts)\<rparr>) = Inr (Some (serialize ts), []) \<and>
   (\<exists>es. entries (serialize ts) = Inr es \<and> length es = length ts \<and>
         map as_task es = map Some ts)"
  using entries_serialize [of ts]
  by (simp add: load_effect_def isLocalStorageAvailable_def)

text \<open>C5 on the list of \<open>a\<close>, which has a priority, and \<open>b\<close>, which has none.\<close>

theorem load_serialize_roundtrip_witness:
  "usable (store_with NoItem) \<and>
   load_effect ((store_with NoItem)\<lparr>todos := JsonText (serialize [task_a, task_b])\<rparr>)
     = Inr (Some (serialize [task_a, task_b]), []) \<and>
   entries (serialize [task_a, task_b]) = Inr [task_json task_a, task_json task_b] \<and>
   map as_task [task_json task_a, task_json task_b] = [Some task_a, Some task_b]"
  using load_serialize_roundtrip [of "store_with NoItem" "[task_a, task_b]"]
  by (auto simp: store_with_def serialize_def)

text \<open>
  C6, as stated, at a snapshot of two entries, the first without an \<open>id\<close>, the second a
  well-formed task: the load effect hands the whole array to \<open>setTasks\<close>, so the entry
  without an id is in the list and is not skipped.
\<close>

theorem load_keeps_malformed_entry:
  "as_task no_id_entry = None \<and> as_task (task_json task_b) = Some task_b \<and>
   load_effect (store_with (JsonText (JArr [no_id_entry, task_json task_b])))
     = Inr (Some (JArr [no_id_entry, task_json task_b]), []) \<and>
   entries (JArr [no_id_entry, task_json task_b]) = Inr [no_id_entry, task_json task_b] \<and>
   entries (JArr [no_id_entry, task_json task_b]) \<noteq> Inr [task_json task_b]"
  by (simp add: as_task_task_json load_effect_def isLocalStorageAvailable_def store_with_def)
    (simp add: as_task_def no_id_entry_def utf16_def)

text \<open>
  C6, amended. The load effect never throws. When the storage is usable and the item under
  \<open>"todos"\<close> parses, the parsed snapshot becomes the list as it is: every entry of it is
  loaded, the valid ones and the malformed ones alike, and none is skipped. Only an item
  that does not parse as a whole is rejected: the error is caught and logged and the
  list is left as it was.
\<close>

theorem load_effect_installs_snapshot:
  "(\<exists>r. load_effect st = Inr r) \<and>
   (usable st \<and> todos st = JsonText v \<longrightarrow> load_effect st = Inr (Some v, [])) \<and>
   (usable st \<and> todos st = BadText \<longrightarrow>
      load_effect st = Inr (None, [''Error loading tasks from localStorage:'']))"
  by (cases "todos st")
    (simp_all add: load_effect_def isLocalStorageAvailable_def)

text \<open>The amended C6 at the snapshot with the entry without an id, and at a corrupt item.\<close>

theorem load_effect_installs_snapshot_witness:
  "usable (store_with (JsonText (JArr [no_id_entry, task_json task_b]))) \<and>
   load_effect (store_with (JsonText (JArr [no_id_entry, task_json task_b])))
     = Inr (Some (JArr [no_id_entry, task_json task_b]), []) \<and>
   load_effect (store_with BadText) = Inr (None, [''Error loading tasks from localStorage:''])"
  using load_effect_installs_snapshot
          [of "store_with (JsonText (JArr [no_id_entry, task_json task_b]))"
              "JArr [no_id_entry, task_json task_b]"]
        load_effect_installs_snapshot [of "store_with BadText" JNull]
  by (simp add: store_with_def)

subsection \<open>Saving\<close>

text \<open>
  A non-empty list that the save effect wrote to a usable storage with room is the list
  that the load effect then installs.
\<close>

lemma save_then_load:
  assumes "usable st" and "has_quota st" and "ts \<noteq> []"
  shows "save_effect gt0 ts st = Inr (st\<lparr>todos := JsonText (serialize ts)\<rparr>, []) \<and>
         load_effect (st\<lparr>todos := JsonText (serialize ts)\<rparr>) = Inr (Some (serialize ts), [])"
  using assms
  by (simp add: save_effect_def skip_save_def write_tasks_def setItem_def load_effect_def
      isLocalStorageAvailable_def)

lemma serialize_nonempty: "ts \<noteq> [] \<Longrightarrow> serialize ts \<noteq> JArr []"
  by (simp add: serialize_def)

text \<open>
  C7. Whenever the list in memory is empty and the item under \<open>"todos"\<close> is a non-empty
  array, the save effect returns without writing and the storage is what it was; hence
  no run of the save effect that starts from a non-empty stored array ends with the
  empty array stored.
\<close>

theorem save_effect_guard:
  "todos st = JsonText (JArr (e # es)) \<Longrightarrow>
   save_effect gt0 [] st = Inr (st, snd (isLocalStorageAvailable st)) \<and>
   (\<forall>ts st' out. save_effect gt0 ts st = Inr (st', out) \<longrightarrow> todos st' \<noteq> JsonText (JArr []))"
proof
  assume stored: "todos st = JsonText (JArr (e # es))"
  show "save_effect gt0 [] st = Inr (st, snd (isLocalStorageAvailable st))"
    using stored by (simp add: save_effect_def skip_save_def isLocalStorageAvailable_def)
  show "\<forall>ts st' out. save_effect gt0 ts st = Inr (st', out) \<longrightarrow> todos st' \<noteq> JsonText (JArr [])"
  proof (intro allI impI)
    fix ts st' out
    assume run: "save_effect gt0 ts st = Inr (st', out)"
    show "todos st' \<noteq> JsonText (JArr [])"
    proof (cases "ts = []")
      case True
      with stored run show ?thesis
        by (auto simp: save_effect_def skip_save_def isLocalStorageAvailable_def
            split: if_splits)
    next
      case False
      with stored run serialize_nonempty [OF False] show ?thesis
        by (auto simp: save_effect_def skip_save_def isLocalStorageAvailable_def
            write_tasks_def setItem_def split: if_splits)
    qed
  qed
qed

text \<open>
  C7 on a storage that holds the task \<open>a\<close>: the empty list is not saved, the list of
  \<open>b\<close> is.
\<close>

theorem save_effect_guard_witness:
  "todos (store_with (JsonText (serialize [task_a]))) = JsonText (JArr [task_json task_a]) \<and>
   save_effect (\<lambda>v. Inr False) [] (store_with (JsonText (serialize [task_a])))
     = Inr (store_with (JsonText (serialize [task_a])), []) \<and>
   save_effect (\<lambda>v. Inr False) [task_b] (store_with (JsonText (serialize [task_a])))
     = Inr (store_with (JsonText (serialize [task_b])), []) \<and>
   todos (store_with (JsonText (serialize [task_b]))) \<noteq> JsonText (JArr [])"
  using save_effect_guard
          [of "store_with (JsonText (serialize [task_a]))" "task_json task_a" "[]" "\<lambda>v. Inr False"]
  by (simp add: store_with_def serialize_def isLocalStorageAvailable_def save_effect_def
      skip_save_def write_tasks_def setItem_def)

text \<open>
  The save effect throws exactly when the storage is usable, the list is empty and the
  stored item is a text that does not parse, the text \<open>null\<close>, or an object whose member
  \<open>length\<close> cannot be compared with zero: the guard reads and parses the item before the
  \<open>try\<close> block begins.
\<close>

lemma save_effect_throws_iff:
  "save_effect gt0 ts st = Inl error \<longleftrightarrow>
     usable st \<and> ts = [] \<and>
     (todos st = BadText \<and> error = SyntaxError \<or>
      todos st = JsonText JNull \<and> error = TypeError \<or>
      (\<exists>kvs v. todos st = JsonText (JObj kvs) \<and>
         get_prop (utf16 ''length'') (JObj kvs) = Some v \<and> gt0 v = Inl error))"
proof (cases "todos st")
  case (JsonText v)
  then show ?thesis
    by (cases v)
      (auto simp: save_effect_def skip_save_def isLocalStorageAvailable_def write_tasks_def
        split: if_splits sum.splits option.splits bool.splits prod.splits)
qed (auto simp: save_effect_def skip_save_def isLocalStorageAvailable_def write_tasks_def
      split: if_splits sum.splits bool.splits prod.splits)

text \<open>
  C8 at a usable storage whose item under \<open>"todos"\<close> does not parse, with the empty list
  in memory, which is the state of the component when it mounts. The load effect catches
  the SyntaxError of \<open>JSON.parse\<close> and logs it; the save effect, run on the same storage,
  lets the same error escape, and a stored \<open>null\<close> makes it throw a TypeError.
\<close>

theorem save_effect_throws_on_corrupt_item:
  "load_effect (store_with BadText) = Inr (None, [''Error loading tasks from localStorage:'']) \<and>
   save_effect gt0 [] (store_with BadText) = Inl SyntaxError \<and>
   save_effect gt0 [] (store_with (JsonText JNull)) = Inl TypeError"
  by (simp add: save_effect_def skip_save_def load_effect_def isLocalStorageAvailable_def
      store_with_def)

end
